theory Spec2Isabelle
  imports Complex_Main "HOL-Library.Word"
begin

section \<open>Python values, tensors and dictionaries\<close>

text \<open>
  The exceptions the modelled functions can raise. They are Python's own: the source
  defines no exception class.
\<close>

datatype py_error =
  KeyError | ValueError | RuntimeError | TypeError | IndexError
  | ZeroDivisionError | AttributeError

text \<open>
  A float32 tensor is its shape and its elements in row-major order. Elements are
  idealised as reals: arithmetic on them is exact, and there is neither NaN nor infinity.
\<close>

datatype tensor = Tensor (shape: "nat list") (data: "real list")

text \<open>
  A dict with string keys is an association list in insertion order; a \<open>dict\<close> object
  never holds a key twice. A set of gradients maps parameter names to tensors.
\<close>

type_synonym gradient_set = "(string \<times> tensor) list"

text \<open>\<open>d[k]\<close>: the value stored under \<open>k\<close>, or KeyError.\<close>

fun dict_get :: "(string \<times> 'v) list \<Rightarrow> string \<Rightarrow> py_error + 'v" where
  "dict_get [] k = Inl KeyError"
| "dict_get ((k', v) # d) k = (if k' = k then Inr v else dict_get d k)"

text \<open>\<open>d[k] = v\<close>: replaces the value of an existing key in place, appends a new key.\<close>

fun dict_set :: "(string \<times> 'v) list \<Rightarrow> string \<Rightarrow> 'v \<Rightarrow> (string \<times> 'v) list" where
  "dict_set [] k v = [(k, v)]"
| "dict_set ((k', v') # d) k v = (if k' = k then (k, v) # d else (k', v') # dict_set d k v)"

text \<open>\<open>k in d\<close>.\<close>

definition dict_has :: "(string \<times> 'v) list \<Rightarrow> string \<Rightarrow> bool" where
  "dict_has d k = (k \<in> set (map fst d))"

text \<open>Evaluating a generator: the first element that raises ends the evaluation.\<close>

fun traverse :: "('a \<Rightarrow> py_error + 'b) \<Rightarrow> 'a list \<Rightarrow> py_error + 'b list" where
  "traverse f [] = Inr []"
| "traverse f (x # xs) =
     (case f x of Inl e \<Rightarrow> Inl e
      | Inr y \<Rightarrow> (case traverse f xs of Inl e \<Rightarrow> Inl e | Inr ys \<Rightarrow> Inr (y # ys)))"



subsection \<open>Tensor primitives\<close>

definition numel :: "tensor \<Rightarrow> nat" where
  "numel t = length (data t)"

text \<open>\<open>t.min()\<close> and \<open>t.max()\<close> raise RuntimeError on a tensor with no element.\<close>

definition tensor_min :: "tensor \<Rightarrow> py_error + real" where
  "tensor_min t = (case data t of [] \<Rightarrow> Inl RuntimeError | x # xs \<Rightarrow> Inr (foldl min x xs))"

definition tensor_max :: "tensor \<Rightarrow> py_error + real" where
  "tensor_max t = (case data t of [] \<Rightarrow> Inl RuntimeError | x # xs \<Rightarrow> Inr (foldl max x xs))"




definition zeros_like :: "tensor \<Rightarrow> tensor" where
  "zeros_like t = Tensor (shape t) (replicate (numel t) 0)"

definition tensor_scale :: "tensor \<Rightarrow> real \<Rightarrow> tensor" where
  "tensor_scale t c = Tensor (shape t) (map (\<lambda>x. x * c) (data t))"

definition tensor_div :: "tensor \<Rightarrow> real \<Rightarrow> tensor" where
  "tensor_div t c = Tensor (shape t) (map (\<lambda>x. x / c) (data t))"

text \<open>
  Broadcasting for the in-place \<open>a += b\<close>: the shape of \<open>b\<close>, aligned to the right of the
  shape of \<open>a\<close>, must have in every dimension either the size of \<open>a\<close> or 1, and no more
  dimensions than \<open>a\<close>; otherwise RuntimeError. \<open>expand_data\<close> repeats the elements of
  \<open>b\<close> along the dimensions of size 1.
\<close>

definition broadcastable :: "nat list \<Rightarrow> nat list \<Rightarrow> bool" where
  "broadcastable src tgt \<longleftrightarrow>
     length src \<le> length tgt \<and>
     list_all2 (\<lambda>s t. s = t \<or> s = 1) src (drop (length tgt - length src) tgt)"

fun expand_data :: "nat list \<Rightarrow> nat list \<Rightarrow> real list \<Rightarrow> real list" where
  "expand_data (s # ss) (t # ts) xs =
     (if s = t
      then concat (map (\<lambda>i. expand_data ss ts (take (prod_list ss) (drop (i * prod_list ss) xs)))
                       [0..<t])
      else concat (replicate t (expand_data ss ts xs)))"
| "expand_data ss ts xs = xs"

definition tensor_iadd :: "tensor \<Rightarrow> tensor \<Rightarrow> py_error + tensor" where
  "tensor_iadd a b =
     (if broadcastable (shape b) (shape a)
      then Inr (Tensor (shape a)
             (map2 (+) (data a)
                (expand_data (replicate (length (shape a) - length (shape b)) 1 @ shape b)
                   (shape a) (data b))))
      else Inl RuntimeError)"

section \<open>gradient.py\<close>



text \<open>
  \<open>aggregate_gradients\<close>. The inner loop adds one set into the accumulator:
  \<open>aggregated[name] += grad\<close> reads the key (KeyError when the first set does not have
  it), adds in place and stores the tensor back.
\<close>

fun add_set :: "gradient_set \<Rightarrow> gradient_set \<Rightarrow> py_error + gradient_set" where
  "add_set aggregated [] = Inr aggregated"
| "add_set aggregated ((name, grad) # rest) =
     (case dict_get aggregated name of Inl e \<Rightarrow> Inl e
      | Inr acc \<Rightarrow>
          (case tensor_iadd acc grad of Inl e \<Rightarrow> Inl e
           | Inr acc' \<Rightarrow> add_set (dict_set aggregated name acc') rest))"

fun sum_sets :: "gradient_set \<Rightarrow> gradient_set list \<Rightarrow> py_error + gradient_set" where
  "sum_sets aggregated [] = Inr aggregated"
| "sum_sets aggregated (gradients # rest) =
     (case add_set aggregated gradients of Inl e \<Rightarrow> Inl e
      | Inr aggregated' \<Rightarrow> sum_sets aggregated' rest)"

definition aggregate_gradients :: "gradient_set list \<Rightarrow> py_error + gradient_set" where
  "aggregate_gradients gradient_list =
     (case gradient_list of
        [] \<Rightarrow> Inr []
      | first # _ \<Rightarrow>
          (case sum_sets (map (\<lambda>(name, grad). (name, zeros_like grad)) first) gradient_list of
             Inl e \<Rightarrow> Inl e
           | Inr aggregated \<Rightarrow>
               Inr (map (\<lambda>(name, t). (name, tensor_div t (real (length gradient_list))))
                      aggregated)))"



section \<open>compression.py\<close>

text \<open>
  The values held by the dicts that the compression functions build and read: strings,
  floats, shapes, float32 tensors, uint8 tensors (shape and bytes), one-dimensional
  int64 tensors, and nested dicts.
\<close>

datatype pyval =
  PStr string
  | PFloat real
  | PSize "nat list"
  | PTensor tensor
  | PByteTensor "nat list" "8 word list"
  | PLongTensor "int list"
  | PDict "(string \<times> pyval) list"

text \<open>
  Operations on dynamically typed values. Only the operand kinds that the compression
  functions build are modelled in detail; applied to a value of another kind, a
  subscript or a membership test is reported as TypeError and a method call as
  AttributeError.
\<close>

fun py_getitem :: "pyval \<Rightarrow> string \<Rightarrow> py_error + pyval" where
  "py_getitem (PDict d) k = dict_get d k"
| "py_getitem _ k = Inl TypeError"

fun py_items :: "pyval \<Rightarrow> py_error + (string \<times> pyval) list" where
  "py_items (PDict d) = Inr d"
| "py_items _ = Inl AttributeError"

fun py_values :: "pyval \<Rightarrow> py_error + pyval list" where
  "py_values (PDict d) = Inr (map snd d)"
| "py_values _ = Inl AttributeError"

fun is_substring :: "string \<Rightarrow> string \<Rightarrow> bool" where
  "is_substring k [] = (k = [])"
| "is_substring k (c # cs) = (take (length k) (c # cs) = k \<or> is_substring k cs)"

fun py_contains :: "string \<Rightarrow> pyval \<Rightarrow> py_error + bool" where
  "py_contains k (PDict d) = Inr (dict_has d k)"
| "py_contains k (PStr s) = Inr (is_substring k s)"
| "py_contains k _ = Inl TypeError"

fun py_len :: "pyval \<Rightarrow> py_error + nat" where
  "py_len (PDict d) = Inr (length d)"
| "py_len (PStr s) = Inr (length s)"
| "py_len (PSize s) = Inr (length s)"
| "py_len _ = Inl TypeError"

fun py_numel :: "pyval \<Rightarrow> py_error + nat" where
  "py_numel (PTensor t) = Inr (numel t)"
| "py_numel (PByteTensor s bs) = Inr (length bs)"
| "py_numel (PLongTensor is) = Inr (length is)"
| "py_numel _ = Inl AttributeError"

definition of_gradients :: "gradient_set \<Rightarrow> pyval" where
  "of_gradients g = PDict (map (\<lambda>(name, grad). (name, PTensor grad)) g)"

subsection \<open>Quantization\<close>

text \<open>\<open>torch.round\<close>: to the nearest integer, a tie to the even one.\<close>

definition round_half_even :: "real \<Rightarrow> int" where
  "round_half_even x =
     (let f = \<lfloor>x\<rfloor>; d = x - of_int f
      in if d < 1 / 2 then f else if 1 / 2 < d then f + 1 else if even f then f else f + 1)"

text \<open>\<open>t.clamp(lo, hi)\<close> is \<open>min(max(x, lo), hi)\<close> on every element.\<close>

definition clamp :: "real \<Rightarrow> real \<Rightarrow> real \<Rightarrow> real" where
  "clamp lo hi x = min (max x lo) hi"

text \<open>Python's \<open>int(x)\<close> on a float: truncation towards zero.\<close>

definition py_int :: "real \<Rightarrow> int" where
  "py_int x = (if 0 \<le> x then \<lfloor>x\<rfloor> else \<lceil>x\<rceil>)"

text \<open>
  \<open>.to(torch.uint8)\<close>: the fraction is dropped and the integer is stored in one byte,
  so it is kept modulo 256.
\<close>

definition to_uint8 :: "real \<Rightarrow> 8 word" where
  "to_uint8 x = word_of_int (py_int x)"

text \<open>\<open>2 ** num_bits - 1\<close>; for a negative exponent Python computes the float power.\<close>

definition levels :: "int \<Rightarrow> real" where
  "levels num_bits = 2 powi num_bits - 1"

text \<open>
  The body of the loop of \<open>quantize_gradients\<close> for one tensor: the uint8 tensor and the
  entry of \<open>quantization_params\<close>. The division raises ZeroDivisionError when
  \<open>num_bits\<close> is 0.
\<close>

definition quantize_tensor :: "tensor \<Rightarrow> int \<Rightarrow> py_error + (pyval \<times> pyval)" where
  "quantize_tensor grad num_bits =
     (case tensor_min grad of Inl e \<Rightarrow> Inl e
      | Inr min_val \<Rightarrow>
     (case tensor_max grad of Inl e \<Rightarrow> Inl e
      | Inr max_val \<Rightarrow>
     (if levels num_bits = 0 then Inl ZeroDivisionError
      else
        (let scale = (max_val - min_val) / levels num_bits;
             zero_point = min_val
         in if scale > 0
            then Inr (PByteTensor (shape grad)
                        (map (\<lambda>x. to_uint8 (clamp 0 (levels num_bits)
                                (of_int (round_half_even ((x - zero_point) / scale)))))
                           (data grad)),
                      PDict [(''scale'', PFloat scale), (''zero_point'', PFloat zero_point)])
            else Inr (PByteTensor (shape grad) (replicate (numel grad) 0),
                      PDict [(''scale'', PFloat 0), (''zero_point'', PFloat min_val)])))))"

fun quantize_loop ::
  "gradient_set \<Rightarrow> int \<Rightarrow> (string \<times> pyval) list \<Rightarrow> (string \<times> pyval) list
   \<Rightarrow> py_error + ((string \<times> pyval) list \<times> (string \<times> pyval) list)" where
  "quantize_loop [] num_bits quantized params = Inr (quantized, params)"
| "quantize_loop ((name, grad) # rest) num_bits quantized params =
     (case quantize_tensor grad num_bits of Inl e \<Rightarrow> Inl e
      | Inr (q, p) \<Rightarrow>
          quantize_loop rest num_bits (dict_set quantized name q) (dict_set params name p))"

definition quantize_gradients :: "gradient_set \<Rightarrow> int \<Rightarrow> py_error + pyval" where
  "quantize_gradients gradients num_bits =
     (case quantize_loop gradients num_bits [] [] of Inl e \<Rightarrow> Inl e
      | Inr (quantized, params) \<Rightarrow>
          Inr (PDict [(''gradients'', PDict quantized), (''params'', PDict params)]))"

text \<open>
  \<open>quantized_grad.float() * scale + zero_point\<close> for the operands the quantizer stores:
  a uint8 (or float32) tensor and two floats.
\<close>

fun dequantize_tensor :: "pyval \<Rightarrow> pyval \<Rightarrow> pyval \<Rightarrow> py_error + tensor" where
  "dequantize_tensor (PByteTensor s bs) (PFloat scale) (PFloat zero_point) =
     Inr (Tensor s (map (\<lambda>b. real (unat b) * scale + zero_point) bs))"
| "dequantize_tensor (PTensor t) (PFloat scale) (PFloat zero_point) =
     Inr (Tensor (shape t) (map (\<lambda>x. x * scale + zero_point) (data t)))"
| "dequantize_tensor (PByteTensor s bs) _ _ = Inl TypeError"
| "dequantize_tensor (PTensor t) _ _ = Inl TypeError"
| "dequantize_tensor _ _ _ = Inl AttributeError"

fun dequantize_loop ::
  "(string \<times> pyval) list \<Rightarrow> pyval \<Rightarrow> gradient_set \<Rightarrow> py_error + gradient_set" where
  "dequantize_loop [] params dequantized = Inr dequantized"
| "dequantize_loop ((name, quantized_grad) # rest) params dequantized =
     (case py_getitem params name of Inl e \<Rightarrow> Inl e
      | Inr entry \<Rightarrow>
     (case py_getitem entry ''scale'' of Inl e \<Rightarrow> Inl e
      | Inr scale \<Rightarrow>
     (case py_getitem entry ''zero_point'' of Inl e \<Rightarrow> Inl e
      | Inr zero_point \<Rightarrow>
     (case dequantize_tensor quantized_grad scale zero_point of Inl e \<Rightarrow> Inl e
      | Inr dequantized_grad \<Rightarrow>
          dequantize_loop rest params (dict_set dequantized name dequantized_grad)))))"

definition dequantize_gradients :: "pyval \<Rightarrow> py_error + gradient_set" where
  "dequantize_gradients quantized_data =
     (case py_getitem quantized_data ''gradients'' of Inl e \<Rightarrow> Inl e
      | Inr quantized \<Rightarrow>
     (case py_getitem quantized_data ''params'' of Inl e \<Rightarrow> Inl e
      | Inr params \<Rightarrow>
     (case py_items quantized of Inl e \<Rightarrow> Inl e
      | Inr items \<Rightarrow> dequantize_loop items params [])))"

subsection \<open>Sparsification\<close>

text \<open>
  \<open>torch.topk(xs, k)\<close>: the \<open>k\<close> largest elements in descending order, with their
  positions; RuntimeError when \<open>k\<close> is not between 0 and the number of elements. The
  order among equal elements is not fixed by torch; here the lower position comes first.
\<close>

definition topk :: "real list \<Rightarrow> int \<Rightarrow> py_error + (real list \<times> nat list)" where
  "topk xs k =
     (if k < 0 \<or> int (length xs) < k then Inl RuntimeError
      else (let best = take (nat k) (sort_key (\<lambda>p. - fst p) (zip xs [0..<length xs]))
            in Inr (map fst best, map snd best)))"

text \<open>The body of the loop of \<open>sparsify_gradients\<close> for one tensor.\<close>

definition sparsify_tensor :: "tensor \<Rightarrow> real \<Rightarrow> py_error + pyval" where
  "sparsify_tensor grad sparsity =
     (let flat_grad = data grad;
          k0 = py_int (real (length flat_grad) * (1 - sparsity));
          k = (if k0 = 0 then 1 else k0)
      in case topk (map abs flat_grad) k of Inl e \<Rightarrow> Inl e
         | Inr (topk_values, topk_indices) \<Rightarrow>
             (let topk_signs = map (\<lambda>i. sgn (flat_grad ! i)) topk_indices;
                  signed_values = map2 (*) topk_values topk_signs
              in Inr (PDict [(''values'', PTensor (Tensor [length signed_values] signed_values)),
                             (''indices'', PLongTensor (map int topk_indices)),
                             (''shape'', PSize (shape grad))])))"

fun sparsify_loop ::
  "gradient_set \<Rightarrow> real \<Rightarrow> (string \<times> pyval) list \<Rightarrow> py_error + (string \<times> pyval) list" where
  "sparsify_loop [] sparsity sparse_gradients = Inr sparse_gradients"
| "sparsify_loop ((name, grad) # rest) sparsity sparse_gradients =
     (case sparsify_tensor grad sparsity of Inl e \<Rightarrow> Inl e
      | Inr entry \<Rightarrow> sparsify_loop rest sparsity (dict_set sparse_gradients name entry))"

definition sparsify_gradients :: "gradient_set \<Rightarrow> real \<Rightarrow> py_error + pyval" where
  "sparsify_gradients gradients sparsity =
     (case sparsify_loop gradients sparsity [] of Inl e \<Rightarrow> Inl e
      | Inr sparse_gradients \<Rightarrow> Inr (PDict sparse_gradients))"

text \<open>
  \<open>dense_grad[indices] = values\<close>: the values are written one after the other; a negative
  index counts from the end, an index outside the buffer raises IndexError.
\<close>

fun index_put :: "real list \<Rightarrow> (int \<times> real) list \<Rightarrow> py_error + real list" where
  "index_put dense [] = Inr dense"
| "index_put dense ((i, v) # rest) =
     (let n = int (length dense); j = (if i < 0 then i + n else i)
      in if 0 \<le> j \<and> j < n then index_put (dense[nat j := v]) rest else Inl IndexError)"

text \<open>
  The body of the loop of \<open>densify_gradients\<close> for one entry.
  \<open>torch.prod(torch.tensor(shape)).item()\<close> is taken as the product of the dimensions.
  The values must be a float tensor with one element per index, or with a single
  element, which is then written at every index; otherwise RuntimeError.
\<close>

fun scatter_values :: "pyval \<Rightarrow> pyval \<Rightarrow> pyval \<Rightarrow> py_error + tensor" where
  "scatter_values (PSize shp) (PTensor values) (PLongTensor indices) =
     (let zeros = replicate (prod_list shp) 0;
          vs = data values
      in if length vs = length indices
         then (case index_put zeros (zip indices vs) of Inl e \<Rightarrow> Inl e
               | Inr dense \<Rightarrow> Inr (Tensor shp dense))
         else if length vs = 1
         then (case index_put zeros (zip indices (replicate (length indices) (hd vs))) of
                 Inl e \<Rightarrow> Inl e
               | Inr dense \<Rightarrow> Inr (Tensor shp dense))
         else Inl RuntimeError)"
| "scatter_values _ _ _ = Inl TypeError"

definition densify_entry :: "pyval \<Rightarrow> py_error + tensor" where
  "densify_entry sparse_data =
     (case py_getitem sparse_data ''shape'' of Inl e \<Rightarrow> Inl e
      | Inr shp \<Rightarrow>
     (case py_getitem sparse_data ''values'' of Inl e \<Rightarrow> Inl e
      | Inr values \<Rightarrow>
     (case py_getitem sparse_data ''indices'' of Inl e \<Rightarrow> Inl e
      | Inr indices \<Rightarrow> scatter_values shp values indices)))"

fun densify_loop ::
  "(string \<times> pyval) list \<Rightarrow> gradient_set \<Rightarrow> py_error + gradient_set" where
  "densify_loop [] dense_gradients = Inr dense_gradients"
| "densify_loop ((name, sparse_data) # rest) dense_gradients =
     (case densify_entry sparse_data of Inl e \<Rightarrow> Inl e
      | Inr dense_grad \<Rightarrow> densify_loop rest (dict_set dense_gradients name dense_grad))"

definition densify_gradients :: "pyval \<Rightarrow> py_error + gradient_set" where
  "densify_gradients sparse_gradients =
     (case py_items sparse_gradients of Inl e \<Rightarrow> Inl e
      | Inr items \<Rightarrow> densify_loop items [])"

subsection \<open>The facade\<close>

text \<open>
  \<open>compress_gradients\<close>. The keyword arguments are the two the function reads,
  \<open>num_bits\<close> and \<open>sparsity\<close>, each present or absent.
\<close>

definition compress_gradients ::
  "gradient_set \<Rightarrow> string \<Rightarrow> int option \<Rightarrow> real option \<Rightarrow> py_error + pyval" where
  "compress_gradients gradients method num_bits_kw sparsity_kw =
     (if method = ''quantize''
      then quantize_gradients gradients (case num_bits_kw of None \<Rightarrow> 8 | Some b \<Rightarrow> b)
      else if method = ''sparsify''
      then sparsify_gradients gradients (case sparsity_kw of None \<Rightarrow> 9 / 10 | Some s \<Rightarrow> s)
      else if method = ''none''
      then Inr (PDict [(''gradients'', of_gradients gradients), (''method'', PStr ''none'')])
      else Inl ValueError)"

text \<open>\<open>d.get(k, default)\<close>.\<close>

fun py_get :: "pyval \<Rightarrow> string \<Rightarrow> pyval \<Rightarrow> py_error + pyval" where
  "py_get (PDict d) k dflt = (case dict_get d k of Inl e \<Rightarrow> Inr dflt | Inr v \<Rightarrow> Inr v)"
| "py_get _ k dflt = Inl AttributeError"

definition decompress_gradients :: "pyval \<Rightarrow> py_error + pyval" where
  "decompress_gradients compressed_data =
     (case py_get compressed_data ''method'' (PStr ''quantize'') of Inl e \<Rightarrow> Inl e
      | Inr method \<Rightarrow>
          if method = PStr ''quantize''
          then (case dequantize_gradients compressed_data of Inl e \<Rightarrow> Inl e
                | Inr g \<Rightarrow> Inr (of_gradients g))
          else if method = PStr ''sparsify''
          then (case py_getitem compressed_data ''gradients'' of Inl e \<Rightarrow> Inl e
                | Inr sparse \<Rightarrow>
                    (case densify_gradients sparse of Inl e \<Rightarrow> Inl e
                     | Inr g \<Rightarrow> Inr (of_gradients g)))
          else if method = PStr ''none''
          then py_getitem compressed_data ''gradients''
          else Inl ValueError)"

subsection \<open>The ratio estimate\<close>

text \<open>The byte count of the sparse branch: values and indices, four bytes each.\<close>

definition sparse_entry_size :: "pyval \<Rightarrow> py_error + nat" where
  "sparse_entry_size entry =
     (case py_getitem entry ''values'' of Inl e \<Rightarrow> Inl e
      | Inr values \<Rightarrow>
     (case py_numel values of Inl e \<Rightarrow> Inl e
      | Inr nv \<Rightarrow>
     (case py_getitem entry ''indices'' of Inl e \<Rightarrow> Inl e
      | Inr indices \<Rightarrow>
     (case py_numel indices of Inl e \<Rightarrow> Inl e
      | Inr ni \<Rightarrow> Inr (nv * 4 + ni * 4)))))"

definition compressed_size_of :: "nat \<Rightarrow> pyval \<Rightarrow> py_error + nat" where
  "compressed_size_of original_size compressed =
     (case py_contains ''params'' compressed of Inl e \<Rightarrow> Inl e
      | Inr True \<Rightarrow>
          (case py_getitem compressed ''gradients'' of Inl e \<Rightarrow> Inl e
           | Inr quantized \<Rightarrow>
          (case py_values quantized of Inl e \<Rightarrow> Inl e
           | Inr grads \<Rightarrow>
          (case traverse py_numel grads of Inl e \<Rightarrow> Inl e
           | Inr sizes \<Rightarrow>
          (case py_getitem compressed ''params'' of Inl e \<Rightarrow> Inl e
           | Inr params \<Rightarrow>
          (case py_len params of Inl e \<Rightarrow> Inl e
           | Inr n \<Rightarrow> Inr (sum_list sizes + n * 16))))))
      | Inr False \<Rightarrow>
          (case py_values compressed of Inl e \<Rightarrow> Inl e
           | Inr [] \<Rightarrow> Inl IndexError
           | Inr (first # rest) \<Rightarrow>
               (case py_contains ''values'' first of Inl e \<Rightarrow> Inl e
                | Inr True \<Rightarrow>
                    (case traverse sparse_entry_size (first # rest) of Inl e \<Rightarrow> Inl e
                     | Inr sizes \<Rightarrow> Inr (sum_list sizes))
                | Inr False \<Rightarrow> Inr original_size)))"

definition estimate_compression_ratio :: "gradient_set \<Rightarrow> pyval \<Rightarrow> py_error + real" where
  "estimate_compression_ratio original compressed =
     (let original_size = sum_list (map (\<lambda>(name, grad). numel grad * 4) original)
      in case compressed_size_of original_size compressed of Inl e \<Rightarrow> Inl e
         | Inr compressed_size \<Rightarrow>
             Inr (if compressed_size > 0 then real original_size / real compressed_size else 1))"

text \<open>
  Well-formed input: a dict holds every name once, and a tensor has as many elements as
  its shape says, at least one.
\<close>

definition wf_tensor :: "tensor \<Rightarrow> bool" where
  "wf_tensor t \<longleftrightarrow> length (data t) = prod_list (shape t) \<and> data t \<noteq> []"

definition wf_gradients :: "gradient_set \<Rightarrow> bool" where
  "wf_gradients g \<longleftrightarrow> distinct (map fst g) \<and> list_all wf_tensor (map snd g)"


text \<open>
  The names of a set with the shapes of its tensors, and what \<open>aggregate_gradients\<close> can
  add into an accumulator built from \<open>first\<close>: every name of \<open>gradients\<close> is a key of
  \<open>first\<close>, with a shape that broadcasts to the shape \<open>first\<close> has under that name.
\<close>

definition names_shapes :: "gradient_set \<Rightarrow> (string \<times> nat list) list" where
  "names_shapes d = map (\<lambda>(name, t). (name, shape t)) d"

definition adds_into :: "gradient_set \<Rightarrow> gradient_set \<Rightarrow> bool" where
  "adds_into first gradients \<longleftrightarrow>
     list_all (\<lambda>(name, grad). case dict_get first name of
                  Inl e \<Rightarrow> False
                | Inr t \<Rightarrow> broadcastable (shape grad) (shape t)) gradients"

section \<open>Facts about dicts and loops\<close>

lemma dict_set_fresh: "k \<notin> set (map fst d) \<Longrightarrow> dict_set d k v = d @ [(k, v)]"
  by (induction d) auto

lemma levels_pos: "1 \<le> b \<Longrightarrow> 1 \<le> levels b"
proof -
  assume b: "1 \<le> b"
  then have "(2::real) ^ 1 \<le> 2 ^ nat b" by (intro power_increasing) auto
  with b show ?thesis by (simp add: levels_def power_int_def)
qed

lemma quantize_tensor_ok:
  assumes "data t \<noteq> []" "levels b \<noteq> 0"
  shows "\<not> isl (quantize_tensor t b)"
  using assms
  by (auto simp: quantize_tensor_def tensor_min_def tensor_max_def Let_def split: list.splits)

lemma quantize_tensor_numel:
  assumes "data t \<noteq> []" "levels b \<noteq> 0"
  shows "py_numel (fst (projr (quantize_tensor t b))) = Inr (numel t)"
  using assms
  by (auto simp: quantize_tensor_def tensor_min_def tensor_max_def Let_def numel_def
      split: list.splits)

lemma quantize_loop_ok:
  assumes "distinct (map fst g)" "set (map fst g) \<inter> set (map fst q) = {}"
    "set (map fst g) \<inter> set (map fst p) = {}"
    "\<forall>t \<in> set (map snd g). \<not> isl (quantize_tensor t b)"
  shows "quantize_loop g b q p =
     Inr (q @ map (\<lambda>(n, t). (n, fst (projr (quantize_tensor t b)))) g,
          p @ map (\<lambda>(n, t). (n, snd (projr (quantize_tensor t b)))) g)"
  using assms
proof (induction g arbitrary: q p)
  case Nil
  then show ?case by simp
next
  case (Cons a g)
  obtain n t where a: "a = (n, t)" by (cases a)
  from Cons.prems a have ok: "\<not> isl (quantize_tensor t b)" by simp
  then obtain qt pt where qp: "quantize_tensor t b = Inr (qt, pt)"
    by (cases "quantize_tensor t b") auto
  from Cons.prems a have fresh: "n \<notin> set (map fst q)" "n \<notin> set (map fst p)" by auto
  have "quantize_loop g b (q @ [(n, qt)]) (p @ [(n, pt)]) =
     Inr ((q @ [(n, qt)]) @ map (\<lambda>(n, t). (n, fst (projr (quantize_tensor t b)))) g,
          (p @ [(n, pt)]) @ map (\<lambda>(n, t). (n, snd (projr (quantize_tensor t b)))) g)"
    using Cons.prems a by (intro Cons.IH) auto
  then show ?case using a qp fresh by (simp add: dict_set_fresh)
qed

lemma wf_quantize_ok:
  assumes "wf_gradients g" "levels b \<noteq> 0"
  shows "quantize_gradients g b =
     Inr (PDict [(''gradients'', PDict (map (\<lambda>(n, t). (n, fst (projr (quantize_tensor t b)))) g)),
                 (''params'', PDict (map (\<lambda>(n, t). (n, snd (projr (quantize_tensor t b)))) g))])"
proof -
  have "\<forall>t \<in> set (map snd g). \<not> isl (quantize_tensor t b)"
  proof
    fix t assume "t \<in> set (map snd g)"
    with assms have "data t \<noteq> []" by (auto simp: wf_gradients_def wf_tensor_def list_all_iff)
    then show "\<not> isl (quantize_tensor t b)" using assms(2) by (rule quantize_tensor_ok)
  qed
  with assms have "quantize_loop g b [] [] =
     Inr ([] @ map (\<lambda>(n, t). (n, fst (projr (quantize_tensor t b)))) g,
          [] @ map (\<lambda>(n, t). (n, snd (projr (quantize_tensor t b)))) g)"
    by (intro quantize_loop_ok) (auto simp: wf_gradients_def)
  then show ?thesis by (simp add: quantize_gradients_def)
qed

lemma traverse_numel_quantized:
  assumes "list_all wf_tensor (map snd g)" "levels b \<noteq> 0"
  shows "traverse py_numel (map snd (map (\<lambda>(n, t). (n, fst (projr (quantize_tensor t b)))) g))
       = Inr (map (\<lambda>(n, t). numel t) g)"
  using assms
  by (induction g) (auto simp: wf_tensor_def quantize_tensor_numel)

lemma sum_times4: "sum_list (map (\<lambda>(name, grad). numel grad * 4) g) = 4 * sum_list (map (\<lambda>(n, t). numel t) g)"
  by (induction g) auto

lemma ratio_gt_one:
  fixes N P :: nat
  assumes "0 < N + 16 * P"
  shows "(1 < real (4 * N) / real (N + 16 * P)) = (16 * P < 3 * N)"
proof -
  have pos: "0 < real (N + 16 * P)" using assms by (simp only: of_nat_0_less_iff)
  have "(1 < real (4 * N) / real (N + 16 * P)) = (real (N + 16 * P) < real (4 * N))"
    using pos by (simp only: less_divide_eq mult_1 if_True)
  also have "\<dots> = (N + 16 * P < 4 * N)" by (rule of_nat_less_iff)
  also have "\<dots> = (16 * P < 3 * N)" by arith
  finally show ?thesis .
qed




























lemma dict_get_names_shapes:
  "dict_get (names_shapes d) n =
     (case dict_get d n of Inl e \<Rightarrow> Inl e | Inr t \<Rightarrow> Inr (shape t))"
  by (induction d) (auto simp: names_shapes_def)

lemma dict_get_error: "dict_get d n = Inl e \<Longrightarrow> e = KeyError"
  by (induction d) (auto split: if_splits)

lemma dict_set_names_shapes:
  "dict_get agg n = Inr a \<Longrightarrow> shape a' = shape a \<Longrightarrow>
   names_shapes (dict_set agg n a') = names_shapes agg"
  by (induction agg) (auto simp: names_shapes_def split: if_splits)

lemma add_set_result:
  assumes "names_shapes agg = names_shapes first"
  shows "(if adds_into first g
          then \<exists>agg'. add_set agg g = Inr agg' \<and> names_shapes agg' = names_shapes first
          else add_set agg g = Inl KeyError \<or> add_set agg g = Inl RuntimeError)"
  using assms
proof (induction g arbitrary: agg)
  case Nil
  then show ?case by (simp add: adds_into_def)
next
  case (Cons p g)
  obtain n t where p: "p = (n, t)" by (cases p)
  have look: "dict_get (names_shapes agg) n = dict_get (names_shapes first) n"
    using Cons.prems by simp
  show ?case
  proof (cases "dict_get first n")
    case (Inl e)
    then have "dict_get agg n = Inl KeyError"
      using look dict_get_error [of agg n]
      by (auto simp: dict_get_names_shapes split: sum.splits)
    then show ?thesis using Inl by (simp add: p adds_into_def)
  next
    case (Inr t0)
    then obtain acc where acc: "dict_get agg n = Inr acc" "shape acc = shape t0"
      using look by (auto simp: dict_get_names_shapes split: sum.splits)
    show ?thesis
    proof (cases "broadcastable (shape t) (shape t0)")
      case False
      then have "tensor_iadd acc t = Inl RuntimeError"
        using acc(2) by (simp add: tensor_iadd_def)
      then show ?thesis using False Inr acc(1) by (simp add: p adds_into_def)
    next
      case True
      define acc' where "acc' = projr (tensor_iadd acc t)"
      have ia: "tensor_iadd acc t = Inr acc'" and sh: "shape acc' = shape acc"
        using True acc(2) by (simp_all add: tensor_iadd_def acc'_def)
      have "names_shapes (dict_set agg n acc') = names_shapes first"
        using dict_set_names_shapes [OF acc(1) sh] Cons.prems by simp
      from Cons.IH [OF this]
      have "(if adds_into first g
          then \<exists>agg'. add_set (dict_set agg n acc') g = Inr agg' \<and>
                 names_shapes agg' = names_shapes first
          else add_set (dict_set agg n acc') g = Inl KeyError \<or>
               add_set (dict_set agg n acc') g = Inl RuntimeError)" .
      moreover have "adds_into first (p # g) = adds_into first g"
        using True Inr by (simp add: p adds_into_def)
      moreover have "add_set agg (p # g) = add_set (dict_set agg n acc') g"
        using acc(1) ia by (simp add: p)
      ultimately show ?thesis by simp
    qed
  qed
qed

lemma sum_sets_result:
  assumes "names_shapes agg = names_shapes first"
  shows "(if list_all (adds_into first) gl
          then \<exists>agg'. sum_sets agg gl = Inr agg' \<and> names_shapes agg' = names_shapes first
          else sum_sets agg gl = Inl KeyError \<or> sum_sets agg gl = Inl RuntimeError)"
  using assms
proof (induction gl arbitrary: agg)
  case Nil
  then show ?case by simp
next
  case (Cons g gl)
  show ?case
  proof (cases "adds_into first g")
    case False
    then show ?thesis using add_set_result [OF Cons.prems, of g] by auto
  next
    case True
    then obtain agg' where a: "add_set agg g = Inr agg'" "names_shapes agg' = names_shapes first"
      using add_set_result [OF Cons.prems, of g] by auto
    from Cons.IH [OF a(2)] show ?thesis using True a(1) by simp
  qed
qed

lemma names_shapes_zeros:
  "names_shapes (map (\<lambda>(name, grad). (name, zeros_like grad)) first) = names_shapes first"
  by (induction first) (auto simp: names_shapes_def zeros_like_def)

lemma names_shapes_div:
  "names_shapes (map (\<lambda>(name, t). (name, tensor_div t c)) d) = names_shapes d"
  by (induction d) (auto simp: names_shapes_def tensor_div_def)

section \<open>Aggregation\<close>

text \<open>
  C4, as the code has it: aggregating an empty sequence raises nothing and returns the
  empty dict.
\<close>

theorem aggregate_empty_returns_empty: "aggregate_gradients [] = Inr []"
  by (simp add: aggregate_gradients_def)

text \<open>
  C4 as stated fails: on the empty sequence the result is a value, not an exception.
\<close>

theorem aggregate_empty_no_error: "\<not> isl (aggregate_gradients [])"
  by (simp add: aggregate_gradients_def)

section \<open>Statistics\<close>


section \<open>The ratio estimate of a quantized set\<close>

text \<open>
  C7, as the code has it. With \<open>N\<close> elements in \<open>P\<close> tensors the estimate for the 8-bit
  payload is \<open>4N / (N + 16P)\<close>, or 1 when the set is empty. It exceeds 1 exactly when
  \<open>3N > 16P\<close>: whether a tensor is constant plays no part.
\<close>

theorem quantize8_ratio:
  assumes "wf_gradients g"
  shows "\<exists>q r. quantize_gradients g 8 = Inr q \<and> estimate_compression_ratio g q = Inr r
      \<and> r = (if 0 < sum_list (map (\<lambda>(n, t). numel t) g) + 16 * length g
             then real (4 * sum_list (map (\<lambda>(n, t). numel t) g))
                  / real (sum_list (map (\<lambda>(n, t). numel t) g) + 16 * length g)
             else 1)
      \<and> (1 < r \<longleftrightarrow> 16 * length g < 3 * sum_list (map (\<lambda>(n, t). numel t) g))"
proof -
  let ?N = "sum_list (map (\<lambda>(n, t). numel t) g)"
  have lv: "levels 8 \<noteq> 0" using levels_pos [of 8] by simp
  let ?q = "PDict [(''gradients'', PDict (map (\<lambda>(n, t). (n, fst (projr (quantize_tensor t 8)))) g)),
                 (''params'', PDict (map (\<lambda>(n, t). (n, snd (projr (quantize_tensor t 8)))) g))]"
  have q: "quantize_gradients g 8 = Inr ?q" using assms lv by (rule wf_quantize_ok)
  have wf: "list_all wf_tensor (map snd g)" using assms by (simp add: wf_gradients_def)
  have size: "compressed_size_of (4 * ?N) ?q = Inr (?N + 16 * length g)"
    using traverse_numel_quantized [OF wf lv]
    by (simp add: compressed_size_of_def dict_has_def)
  have est: "estimate_compression_ratio g ?q =
      Inr (if 0 < ?N + 16 * length g then real (4 * ?N) / real (?N + 16 * length g) else 1)"
    using size by (simp add: estimate_compression_ratio_def sum_times4 Let_def)
  have iff: "(1 < (if 0 < ?N + 16 * length g then real (4 * ?N) / real (?N + 16 * length g) else (1::real)))
       \<longleftrightarrow> 16 * length g < 3 * ?N"
  proof (cases "0 < ?N + 16 * length g")
    case True
    show ?thesis by (simp only: if_P [OF True] ratio_gt_one [OF True])
  next
    case False
    then have "?N = 0" "length g = 0" by simp_all
    then show ?thesis by simp
  qed
  show ?thesis using q est iff by blast
qed

theorem quantize8_ratio_witness:
  "wf_gradients [(''w'', Tensor [2, 3] [0, 1, 2, 3, 4, 5])] \<and>
   (\<exists>q r. quantize_gradients [(''w'', Tensor [2, 3] [0, 1, 2, 3, 4, 5])] 8 = Inr q \<and>
      estimate_compression_ratio [(''w'', Tensor [2, 3] [0, 1, 2, 3, 4, 5])] q = Inr r \<and> 1 < r)"
proof -
  have h: "wf_gradients [(''w'', Tensor [2, 3] [0, 1, 2, 3, 4, 5])]"
    by (simp add: wf_gradients_def wf_tensor_def)
  from quantize8_ratio [OF h] obtain q r where
    q: "quantize_gradients [(''w'', Tensor [2, 3] [0, 1, 2, 3, 4, 5])] 8 = Inr q" and
    r: "estimate_compression_ratio [(''w'', Tensor [2, 3] [0, 1, 2, 3, 4, 5])] q = Inr r" and
    iff: "1 < r \<longleftrightarrow> 16 * length [(''w'', Tensor [2, 3] [0, 1, 2, 3, 4, 5])]
       < 3 * sum_list (map (\<lambda>(n, t). numel t) [(''w'', Tensor [2, 3] [0, 1, 2, 3, 4, 5])])"
    by blast
  from iff have "1 < r" by (simp add: numel_def)
  with h q r show ?thesis by blast
qed

text \<open>
  C7 as stated fails: a set with one non-constant tensor of two elements is estimated at
  8 bytes dense and 18 bytes quantized.
\<close>

theorem quantize8_ratio_below_one:
  "tensor_min (Tensor [2] [0, 1]) = Inr 0 \<and> tensor_max (Tensor [2] [0, 1]) = Inr 1 \<and>
   quantize_gradients [(''w'', Tensor [2] [0, 1])] 8 =
     Inr (PDict [(''gradients'', PDict [(''w'', PByteTensor [2] [0, 255])]),
                 (''params'', PDict [(''w'', PDict [(''scale'', PFloat (1 / 255)),
                                                    (''zero_point'', PFloat 0)])])]) \<and>
   estimate_compression_ratio [(''w'', Tensor [2] [0, 1])]
     (PDict [(''gradients'', PDict [(''w'', PByteTensor [2] [0, 255])]),
             (''params'', PDict [(''w'', PDict [(''scale'', PFloat (1 / 255)),
                                                (''zero_point'', PFloat 0)])])]) = Inr (4 / 9) \<and>
   \<not> (1 < (4 / 9 :: real))"
  by (simp add: quantize_gradients_def quantize_tensor_def tensor_min_def tensor_max_def
      levels_def round_half_even_def clamp_def to_uint8_def py_int_def numel_def
      estimate_compression_ratio_def compressed_size_of_def dict_has_def)

section \<open>How many elements sparsification keeps\<close>




section \<open>Sparsification at sparsity 0\<close>



section \<open>Quantize, then dequantize\<close>



section \<open>Quantization with more than eight bits\<close>



text \<open>
  For instance, with nine bits the tensor \<open>[0, 511]\<close> has scale \<open>1\<close>; its second element
  quantizes to \<open>511\<close> and is stored as \<open>255\<close>.
\<close>

theorem quantize_nine_bits_stores_255:
  "quantize_gradients [(''w'', Tensor [2] [0, 511])] 9 = Inr (PDict
       [(''gradients'', PDict [(''w'', PByteTensor [2] [0, 255])]),
        (''params'', PDict [(''w'', PDict [(''scale'', PFloat 1), (''zero_point'', PFloat 0)])])])"
  by (simp add: quantize_gradients_def quantize_tensor_def tensor_min_def tensor_max_def levels_def
      round_half_even_def clamp_def to_uint8_def py_int_def numel_def)

section \<open>Aggregation of sets that differ\<close>

text \<open>
  Claim C5, as the code has it. \<open>aggregate_gradients\<close> checks nothing before it adds: the
  accumulator is built from the first set, and each \<open>aggregated[name] += grad\<close> either
  succeeds or raises what the dict or the addition raises. For a non-empty list the call
  returns exactly when every name of every set is a key of the first set, with a shape that
  broadcasts to the first set's; the result then has the names and shapes of the first set.
  Otherwise the call ends with KeyError (a name the first set does not have) or RuntimeError
  (a shape that does not broadcast).
\<close>

theorem aggregate_mismatch_behaviour:
  assumes "gradient_list = first # rest"
  shows "(if list_all (adds_into first) gradient_list
          then \<exists>r. aggregate_gradients gradient_list = Inr r \<and>
                 names_shapes r = names_shapes first
          else aggregate_gradients gradient_list = Inl KeyError \<or>
               aggregate_gradients gradient_list = Inl RuntimeError)"
proof -
  define z where "z = map (\<lambda>(name, grad). (name, zeros_like grad)) first"
  have z: "names_shapes z = names_shapes first" unfolding z_def by (rule names_shapes_zeros)
  have agg: "aggregate_gradients gradient_list =
      (case sum_sets z gradient_list of Inl e \<Rightarrow> Inl e
       | Inr aggregated \<Rightarrow>
           Inr (map (\<lambda>(name, t). (name, tensor_div t (real (length gradient_list))))
                  aggregated))"
    unfolding aggregate_gradients_def z_def assms by simp
  show ?thesis
  proof (cases "list_all (adds_into first) gradient_list")
    case True
    then obtain a where a: "sum_sets z gradient_list = Inr a" "names_shapes a = names_shapes first"
      using sum_sets_result [OF z, of gradient_list] by auto
    show ?thesis unfolding agg a(1) using True a(2) by (simp add: names_shapes_div)
  next
    case False
    then have "sum_sets z gradient_list = Inl KeyError \<or> sum_sets z gradient_list = Inl RuntimeError"
      using sum_sets_result [OF z, of gradient_list] by auto
    then show ?thesis unfolding agg using False by auto
  qed
qed

theorem aggregate_mismatch_behaviour_witness:
  "[[(''w'', Tensor [1] [2])], []] = [(''w'', Tensor [1] [2])] # [[]] \<and>
   list_all (adds_into [(''w'', Tensor [1] [2])]) [[(''w'', Tensor [1] [2])], []] \<and>
   (\<exists>r. aggregate_gradients [[(''w'', Tensor [1] [2])], []] = Inr r \<and>
        names_shapes r = names_shapes [(''w'', Tensor [1] [2])])"
proof -
  have a: "list_all (adds_into [(''w'', Tensor [1] [2])]) [[(''w'', Tensor [1] [2])], []]"
    by (simp add: adds_into_def broadcastable_def)
  have e: "[[(''w'', Tensor [1] [2])], []] = [(''w'', Tensor [1] [2])] # [[]]" by simp
  show ?thesis using aggregate_mismatch_behaviour [OF e] a by simp
qed

text \<open>
  Claim C5, as stated, fails: the second set below has no parameter \<open>w\<close>, so the two sets
  do not share their names, and the call returns half of the first set instead of failing.
\<close>

theorem aggregate_mismatch_silent:
  "map fst [(''w'', Tensor [1] [2])] \<noteq> map fst ([] :: gradient_set) \<and>
   aggregate_gradients [[(''w'', Tensor [1] [2])], []] = Inr [(''w'', Tensor [1] [1])]"
  by (simp add: aggregate_gradients_def zeros_like_def numel_def tensor_iadd_def
      broadcastable_def tensor_div_def)

section \<open>The envelope of a compressed set\<close>

text \<open>
  Claim C1. \<open>compress_gradients\<close> returns for \<open>'sparsify'\<close> the bare output of
  \<open>sparsify_gradients\<close>, a dict from parameter names to sparse entries without a
  \<open>'method'\<close> key. \<open>decompress_gradients\<close> reads \<open>compressed_data.get('method', 'quantize')\<close>,
  takes the envelope for a quantized one and fails in \<open>dequantize_gradients\<close> on the key
  \<open>'gradients'\<close>: the set \<open>{'w': [1, -2]}\<close> compressed with sparsity \<open>1/2\<close> is not
  decompressed.
\<close>

theorem sparsify_envelope_not_decompressed:
  "compress_gradients [(''w'', Tensor [2] [1, -2])] ''sparsify'' None (Some (1/2)) =
     Inr (PDict [(''w'', PDict [(''values'', PTensor (Tensor [1] [-2])),
                                (''indices'', PLongTensor [1]), (''shape'', PSize [2])])]) \<and>
   decompress_gradients
     (PDict [(''w'', PDict [(''values'', PTensor (Tensor [1] [-2])),
                            (''indices'', PLongTensor [1]), (''shape'', PSize [2])])]) =
     Inl KeyError"
  by (simp add: compress_gradients_def sparsify_gradients_def sparsify_tensor_def topk_def
      py_int_def decompress_gradients_def dequantize_gradients_def)

end
